theory Spec2Isabelle
  imports Complex_Main "HOL-Library.Sublist"
begin

section \<open>Data model (src/src/components/MapView.tsx, interface ChargingStation)\<close>

text \<open>
  A charging station as the TypeScript interface declares it. The fields \<open>id\<close> and
  \<open>total\<close> carry a suffix because HOL already has constants of those names. The
  \<open>status\<close> field is typed \<open>'available' | 'busy' | 'offline'\<close> in the source; at run time it
  is a string, and \<open>getStatusColor\<close> takes a plain \<open>string\<close>, so it is a string here.
  Strings are lists of 8-bit characters. The model of the string functions is that of
  the runtime on ASCII text (every code below 128, \<open>asciiText\<close> below); what the runtime
  does to other text is outside the model.
\<close>

record station =
  id_st :: string
  name :: string
  address :: string
  lat :: real
  lng :: real
  available :: int
  total_st :: int
  cost :: real
  amenities :: "string list"
  status :: string

section \<open>Search filter (MapView.tsx, lines 166-169)\<close>

text \<open>
  \<open>String.prototype.toLowerCase\<close> on ASCII text: the letters \<open>A\<close>..\<open>Z\<close> (codes 65..90)
  move to \<open>a\<close>..\<open>z\<close>, every other character stays. The runtime's function follows the
  Unicode case mapping, which beyond ASCII changes further letters, depends on the context
  and may change the length of a string; on ASCII text it is this character-by-character
  map. A property that rests on the lowering of letters is therefore stated for ASCII text.
\<close>

definition toLowerChar :: "char \<Rightarrow> char" where
  "toLowerChar c =
     (let n = (of_char c :: nat) in if 65 \<le> n \<and> n \<le> 90 then char_of (n + 32) else c)"

definition toLowerCase :: "string \<Rightarrow> string" where
  "toLowerCase s = map toLowerChar s"


definition isUpper :: "char \<Rightarrow> bool" where
  "isUpper c \<longleftrightarrow> 65 \<le> (of_char c :: nat) \<and> (of_char c :: nat) \<le> 90"

text \<open>
  \<open>String.prototype.includes\<close> (named \<open>includes_str\<close> here, the plain name being
  reserved): scan the start positions of the receiver from left to right and test whether
  the search string begins there. The empty search string is found in every string, the
  empty one included.
\<close>

fun includes_str :: "string \<Rightarrow> string \<Rightarrow> bool" where
  "includes_str [] q = (q = [])"
| "includes_str (c # cs) q = (prefix q (c # cs) \<or> includes_str cs q)"

text \<open>The predicate handed to \<open>stations.filter\<close>.\<close>

definition matchesQuery :: "string \<Rightarrow> station \<Rightarrow> bool" where
  "matchesQuery searchQuery s =
     (includes_str (toLowerCase (name s)) (toLowerCase searchQuery) \<or>
      includes_str (toLowerCase (address s)) (toLowerCase searchQuery))"

definition filteredStations :: "station list \<Rightarrow> string \<Rightarrow> station list" where
  "filteredStations stations searchQuery = filter (matchesQuery searchQuery) stations"

text \<open>
  A match in terms of the lowered strings: some contiguous piece of the text has the
  lowered form of the query.
\<close>

definition ci_substring :: "string \<Rightarrow> string \<Rightarrow> bool" where
  "ci_substring q t \<longleftrightarrow>
     (\<exists>pre mid suf. t = pre @ mid @ suf \<and> toLowerCase mid = toLowerCase q)"

definition spec_matches :: "string \<Rightarrow> station \<Rightarrow> bool" where
  "spec_matches q s \<longleftrightarrow> ci_substring q (name s) \<or> ci_substring q (address s)"

text \<open>
  The specification's wording of a match, with no use of \<open>toLowerCase\<close>. Case is read off
  the alphabet: two characters are the same letter when they are equal, or when they are
  the capital and the small form of one of the 26 letters. Two strings are equal up to
  case when they are so character by character, and a text contains the query as a
  case-insensitive substring when some contiguous piece of the text equals the query up to
  case.
\<close>

definition upperLetters :: string where
  "upperLetters = ''ABCDEFGHIJKLMNOPQRSTUVWXYZ''"

definition lowerLetters :: string where
  "lowerLetters = ''abcdefghijklmnopqrstuvwxyz''"

definition sameLetter :: "char \<Rightarrow> char \<Rightarrow> bool" where
  "sameLetter a b \<longleftrightarrow>
     a = b \<or> (a, b) \<in> set (zip upperLetters lowerLetters)
           \<or> (b, a) \<in> set (zip upperLetters lowerLetters)"

definition ci_equal :: "string \<Rightarrow> string \<Rightarrow> bool" where
  "ci_equal u v = list_all2 sameLetter u v"



section \<open>Sample registry (MapView.test.tsx, mockStations)\<close>

definition downtown :: station where
  "downtown = \<lparr> id_st = ''1'', name = ''Downtown Plaza'', address = ''123 Main St, Miami, FL'',
     lat = 25.7617, lng = - 80.1918, available = 3, total_st = 4, cost = 0.35,
     amenities = [''Restaurant'', ''WiFi'', ''Restroom''], status = ''available'' \<rparr>"

definition airport :: station where
  "airport = \<lparr> id_st = ''2'', name = ''Airport Terminal'', address = ''2100 NW 42nd Ave, Miami, FL'',
     lat = 25.7959, lng = - 80.2870, available = 0, total_st = 6, cost = 0.42,
     amenities = [''Food Court'', ''Shopping''], status = ''busy'' \<rparr>"

definition beach :: station where
  "beach = \<lparr> id_st = ''3'', name = ''Beach Resort'', address = ''1701 Collins Ave, Miami Beach, FL'',
     lat = 25.7907, lng = - 80.1300, available = 2, total_st = 3, cost = 0.38,
     amenities = [''Hotel'', ''Restaurant'', ''Valet''], status = ''offline'' \<rparr>"

definition mockStations :: "station list" where
  "mockStations = [downtown, airport, beach]"

section \<open>Status colours and texts (MapView.tsx, lines 116-118 and 182-198)\<close>

text \<open>
  The colour of a map marker is computed inline in the marker effect by a conditional
  chain with a final \<open>else\<close>; the class of the status badge in the list is computed by
  \<open>getStatusColor\<close>, a \<open>switch\<close> with a \<open>default\<close> branch.
\<close>

definition markerColor :: "string \<Rightarrow> string" where
  "markerColor st =
     (if st = ''available'' then ''#10B981''
      else if st = ''busy'' then ''#F59E0B'' else ''#EF4444'')"

definition getStatusColor :: "string \<Rightarrow> string" where
  "getStatusColor st =
     (if st = ''available'' then ''text-green-600''
      else if st = ''busy'' then ''text-orange-500''
      else if st = ''offline'' then ''text-red-500''
      else ''text-gray-500'')"

definition getStatusText :: "string \<Rightarrow> string" where
  "getStatusText st =
     (if st = ''available'' then ''Available''
      else if st = ''busy'' then ''Busy''
      else if st = ''offline'' then ''Offline''
      else ''Unknown'')"

section \<open>Map markers (MapView.tsx, lines 108-145)\<close>

text \<open>
  A marker holds its colour, its position and the station its popup is rendered from
  (name, address, status, ports, cost and the id used by the popup's button).
\<close>

record marker =
  color :: string
  lngLat :: "real \<times> real"
  popup :: station

definition mkMarker :: "station \<Rightarrow> marker" where
  "mkMarker s = \<lparr> color = markerColor (status s), lngLat = (lng s, lat s), popup = s \<rparr>"

text \<open>
  The marker effect. Its first argument says whether \<open>map.current\<close> is set, its last is
  the content of \<open>markersRef\<close>. With no map or with an empty station list it does nothing,
  so the markers of an earlier run stay.
\<close>

definition stationMarkersEffect :: "bool \<Rightarrow> station list \<Rightarrow> marker list \<Rightarrow> marker list" where
  "stationMarkersEffect mapCurrent stations markersRef =
     (if mapCurrent \<and> length stations > 0 then map mkMarker stations else markersRef)"

text \<open>
  The component's own state as far as the list and the markers depend on it: the search
  text (a \<open>useState\<close> cell) and the marker list (a ref). \<open>mount\<close> is the first render
  followed by the effects in their order: the map is created (the container \<open>div\<close> exists
  after the first render), then the markers are added. \<open>setSearchQuery\<close> is the input's
  \<open>onChange\<close>: the component renders again, and since the marker effect depends on
  \<open>[stations]\<close> only, it does not run. \<open>stationsChanged\<close> is a render with a new
  \<open>stations\<close> prop, after which it does run.
\<close>

record mapview =
  searchQuery :: string
  mapCurrent :: bool
  markersRef :: "marker list"

definition mount :: "station list \<Rightarrow> mapview" where
  "mount stations =
     \<lparr> searchQuery = [], mapCurrent = True,
       markersRef = stationMarkersEffect True stations [] \<rparr>"

definition setSearchQuery :: "string \<Rightarrow> mapview \<Rightarrow> mapview" where
  "setSearchQuery v m = m\<lparr> searchQuery := v \<rparr>"

definition stationsChanged :: "station list \<Rightarrow> mapview \<Rightarrow> mapview" where
  "stationsChanged stations m =
     m\<lparr> markersRef := stationMarkersEffect (mapCurrent m) stations (markersRef m) \<rparr>"

section \<open>Selection from a marker popup (MapView.tsx, lines 147-164)\<close>

text \<open>
  The conditions of the specification's error taxonomy. The source has no error type of
  its own.
\<close>

datatype condition = NotFound | InvalidState

text \<open>
  \<open>window.selectStation\<close>: look the id up with \<open>Array.prototype.find\<close> and call the
  \<open>onStationSelect\<close> prop with the station found; an object is always truthy. The state
  the parent component keeps (the view shown, the selected station) is reachable through
  that callback only, so it is a parameter here, with the callback as a state transformer.
  The function returns \<open>undefined\<close> and has no \<open>throw\<close>: the first component of the result,
  the condition reported, is \<open>None\<close> on both paths.
\<close>

definition selectStation ::
  "station list \<Rightarrow> (station \<Rightarrow> 'st \<Rightarrow> 'st) \<Rightarrow> string \<Rightarrow> 'st \<Rightarrow> condition option \<times> 'st" where
  "selectStation stations onStationSelect stationId st =
     (case find (\<lambda>s. id_st s = stationId) stations of
        Some station \<Rightarrow> (None, onStationSelect station st)
      | None \<Rightarrow> (None, st))"

text \<open>
  Modelled from the spec: the parent component (\<open>App.tsx\<close>) is not among the sources, so
  its state has the shape the specification gives the controller, the active view and the
  selected station id, and its callback is the transition \<open>selectStation\<close> of the
  specification's table. Both serve as a concrete state and callback where a run needs
  one; the properties of \<open>selectStation\<close> are stated for every state and callback.
\<close>

datatype view = Discovery | Detail | Scanning | Profile

record controller =
  applicationView :: view
  selectedStationId :: "string option"

definition showDetail :: "station \<Rightarrow> controller \<Rightarrow> controller" where
  "showDetail s c = c\<lparr> applicationView := Detail, selectedStationId := Some (id_st s) \<rparr>"

definition initialController :: controller where
  "initialController = \<lparr> applicationView = Discovery, selectedStationId = None \<rparr>"

text \<open>
  Modelled from the spec: the handler of a scan result is in \<open>App.tsx\<close>, which is not
  among the sources. The specification's table has one transition for it: in the view
  \<open>Scanning\<close> a scan result leads to \<open>Discovery\<close> and sets the charging-session flag, the
  session being "populated from selectedStationId"; any non-empty code is accepted. The
  state is the controller with the flag and the session's station reference. In every
  other case (another view, the empty code) the table has no transition, and the state
  stays. The App test among the sources agrees: after the scanner delivers a code, the map
  view is shown with \<open>isCharging\<close> true.
\<close>

record app = controller +
  chargingActive :: bool
  sessionStationId :: "string option"

definition scanResult :: "string \<Rightarrow> app \<Rightarrow> app" where
  "scanResult code a =
     (if applicationView a = Scanning \<and> code \<noteq> []
      then a\<lparr> applicationView := Discovery, chargingActive := True,
              sessionStationId := selectedStationId a \<rparr>
      else a)"

text \<open>A state of the scanning view with "Beach Resort" (id 3) selected and no session.\<close>

definition scanningBeach :: app where
  "scanningBeach =
     \<lparr> applicationView = Scanning, selectedStationId = Some ''3'',
       chargingActive = False, sessionStationId = None \<rparr>"

section \<open>Rendered view (MapView.tsx, lines 200-302)\<close>

text \<open>
  The charging banner is rendered when the \<open>isCharging\<close> prop is true; its two lines are
  literals of the source. The bullet between the two estimates is U+2022, three bytes in
  UTF-8.
\<close>

definition chargingBanner :: "bool \<Rightarrow> (string \<times> string) option" where
  "chargingBanner isCharging =
     (if isCharging
      then Some (''Currently charging at Downtown Plaza'',
                 ''45 min remaining '' @ [char_of (0xE2::nat), char_of (0x80::nat), char_of (0xA2::nat)]
                   @ '' 78% charged'')
      else None)"

text \<open>
  The access token: \<open>import.meta.env.VITE_MAPBOX_ACCESS_TOKEN || ''\<close>. The variable is
  a string or undefined; \<open>||\<close> takes its right operand when the left one is falsy, and the
  only falsy string is the empty one.
\<close>

definition truthy :: "string \<Rightarrow> bool" where
  "truthy s = (s \<noteq> [])"

definition accessToken :: "string option \<Rightarrow> string" where
  "accessToken env = (case env of None \<Rightarrow> [] | Some t \<Rightarrow> if truthy t then t else [])"

definition placeholderToken :: string where
  "placeholderToken = ''your_mapbox_access_token_here''"

definition showOverlay :: "string \<Rightarrow> bool" where
  "showOverlay tok = (truthy tok \<and> tok \<noteq> placeholderToken)"

definition showTokenWarning :: "string \<Rightarrow> bool" where
  "showTokenWarning tok = (\<not> truthy tok \<or> tok = placeholderToken)"

text \<open>A number is rendered in decimal.\<close>

function show_nat :: "nat \<Rightarrow> string" where
  "show_nat n =
     (if n < 10 then [char_of (48 + n)]
      else show_nat (n div 10) @ [char_of (48 + n mod 10)])"
  by pat_completeness auto
termination
  by (relation "measure (\<lambda>n. n)") auto

declare show_nat.simps [simp del]

text \<open>Reading a decimal numeral back, to state that \<open>show_nat\<close> writes the number itself.\<close>

definition read_nat :: "string \<Rightarrow> nat" where
  "read_nat s = foldl (\<lambda>a c. 10 * a + (of_char c - 48)) 0 s"

text \<open>
  The amenity tags of a station card: \<open>amenities.slice(0, 3)\<close>, and one more tag when
  \<open>amenities.length > 3\<close>.
\<close>

definition amenityTags :: "string list \<Rightarrow> string list" where
  "amenityTags am =
     take 3 am @
     (if length am > 3 then [''+'' @ show_nat (length am - 3) @ '' more''] else [])"

record card =
  cardName :: string
  cardAddress :: string
  statusClass :: string
  statusText :: string
  tags :: "string list"

definition stationCard :: "station \<Rightarrow> card" where
  "stationCard s =
     \<lparr> cardName = name s, cardAddress = address s,
       statusClass = getStatusColor (status s), statusText = getStatusText (status s),
       tags = amenityTags (amenities s) \<rparr>"

text \<open>
  What one render shows, from the props \<open>stations\<close> and \<open>isCharging\<close>, the environment
  variable and the component state. The map and its markers are not part of the render
  result: they live in \<open>markersRef\<close> and change in the marker effect only.
\<close>

record rendered =
  banner :: "(string \<times> string) option"
  overlay :: bool
  tokenWarning :: bool
  stationCards :: "card list"

definition render :: "station list \<Rightarrow> bool \<Rightarrow> string option \<Rightarrow> mapview \<Rightarrow> rendered" where
  "render stations isCharging env m =
     \<lparr> banner = chargingBanner isCharging,
       overlay = showOverlay (accessToken env),
       tokenWarning = showTokenWarning (accessToken env),
       stationCards = map stationCard (filteredStations stations (searchQuery m)) \<rparr>"

section \<open>Mounting with the mapping library (MapView.tsx, lines 34-48)\<close>

text \<open>
  The access token is handed to the library (\<open>mapboxgl.accessToken = ...\<close>) in the render,
  and the first effect calls \<open>new mapboxgl.Map\<close>. That call is not guarded by any test of the
  token, and no \<open>try\<close> surrounds it: an exception of the constructor leaves the effect, and
  the component tree is removed, so nothing is shown. The library is not among the
  sources; whether its constructor throws for a token is the parameter \<open>mapThrows\<close>.
  \<open>mount\<close> above is the mount with a constructor that returned. \<open>firstView\<close> is what is on
  the screen after the mount.
\<close>

datatype failure = MapConstructorError

definition mountView :: "(string \<Rightarrow> bool) \<Rightarrow> string option \<Rightarrow> station list \<Rightarrow> failure + mapview" where
  "mountView mapThrows env stations =
     (if mapThrows (accessToken env) then Inl MapConstructorError else Inr (mount stations))"

definition firstView ::
  "(string \<Rightarrow> bool) \<Rightarrow> station list \<Rightarrow> bool \<Rightarrow> string option \<Rightarrow> failure + rendered" where
  "firstView mapThrows stations isCharging env =
     (case mountView mapThrows env stations of
        Inl e \<Rightarrow> Inl e
      | Inr m \<Rightarrow> Inr (render stations isCharging env m))"


section \<open>QR scanner (src/src/components/QRScanner.tsx)\<close>

text \<open>
  The component state (\<open>isScanning\<close>, \<open>error\<close>, \<open>intervalRef\<close>) together with what the
  browser and the parent hold for it: the interval timers registered by \<open>setInterval\<close> and
  not yet cleared, the next timer id (ids are positive), the number of images created by a
  poll whose \<open>onload\<close> has not fired yet, the arguments of the calls of the \<open>onScan\<close> and the
  number of calls of the \<open>onBack\<close> prop, and whether the component is mounted.
\<close>

record scanner =
  isScanning :: bool
  error :: "string option"
  intervalRef :: "nat option"
  timers :: "nat list"
  nextTimer :: nat
  loading :: nat
  onScanCalls :: "string list"
  onBackCalls :: nat
  mounted :: bool

definition initialScanner :: scanner where
  "initialScanner =
     \<lparr> isScanning = False, error = None, intervalRef = None, timers = [], nextTimer = 1,
       loading = 0, onScanCalls = [], onBackCalls = 0, mounted = True \<rparr>"

text \<open>
  \<open>if (intervalRef.current) clearInterval(intervalRef.current)\<close>: the ref is falsy when it
  is \<open>null\<close> or \<open>0\<close>.
\<close>

definition clearIntervalRef :: "scanner \<Rightarrow> scanner" where
  "clearIntervalRef s =
     (case intervalRef s of
        None \<Rightarrow> s
      | Some i \<Rightarrow> if i = 0 then s else s\<lparr> timers := removeAll i (timers s) \<rparr>)"

definition startScanning :: "scanner \<Rightarrow> scanner" where
  "startScanning s =
     s\<lparr> isScanning := True, error := None, intervalRef := Some (nextTimer s),
        timers := timers s @ [nextTimer s], nextTimer := Suc (nextTimer s) \<rparr>"

definition stopScanning :: "scanner \<Rightarrow> scanner" where
  "stopScanning s = clearIntervalRef (s\<lparr> isScanning := False \<rparr>)"

definition handleManualEntry :: "scanner \<Rightarrow> scanner" where
  "handleManualEntry s = s\<lparr> onScanCalls := onScanCalls s @ [''EV-STATION-001-PORT-A''] \<rparr>"

definition onUserMediaError :: "scanner \<Rightarrow> scanner" where
  "onUserMediaError s =
     s\<lparr> error := Some ''Camera access denied. Please enable camera permissions.'',
        isScanning := False \<rparr>"

text \<open>
  The \<open>Webcam\<close> element is rendered while \<open>isScanning\<close> holds, and \<open>webcamRef.current\<close>
  is set exactly while it is rendered in a mounted component.
\<close>

definition webcamPresent :: "scanner \<Rightarrow> bool" where
  "webcamPresent s = (mounted s \<and> isScanning s)"

text \<open>
  One firing of the interval timer \<open>i\<close>; \<open>shot\<close> says whether \<open>getScreenshot\<close> returned
  an image. A timer that was cleared does not fire. With a webcam and a screenshot the
  callback creates an image, whose \<open>onload\<close> runs later.
\<close>

definition intervalTick :: "nat \<Rightarrow> bool \<Rightarrow> scanner \<Rightarrow> scanner" where
  "intervalTick i shot s =
     (if i \<in> set (timers s) \<and> webcamPresent s \<and> shot
      then s\<lparr> loading := Suc (loading s) \<rparr> else s)"

text \<open>
  \<open>img.onload\<close> of one pending image; \<open>code\<close> is the data of the code \<open>jsQR\<close> found in
  it, if any (\<open>None\<close> also stands for a missing canvas context). The handler consults
  neither \<open>isScanning\<close> nor the timers before it calls \<open>onScan\<close>.
\<close>

definition imgOnload :: "string option \<Rightarrow> scanner \<Rightarrow> scanner" where
  "imgOnload code s =
     (if loading s = 0 then s
      else
        let s1 = s\<lparr> loading := loading s - 1 \<rparr> in
        (case code of
           None \<Rightarrow> s1
         | Some d \<Rightarrow>
             (clearIntervalRef (s1\<lparr> isScanning := False \<rparr>))\<lparr> onScanCalls := onScanCalls s1 @ [d] \<rparr>))"

text \<open>
  The header's back button calls the \<open>onBack\<close> prop. Unmounting is what the parent does
  when it shows another view; the component registers no cleanup for it (it has no
  \<open>useEffect\<close>), so nothing but the mounted flag changes.
\<close>

definition backClick :: "scanner \<Rightarrow> scanner" where
  "backClick s = s\<lparr> onBackCalls := Suc (onBackCalls s) \<rparr>"

definition unmount :: "scanner \<Rightarrow> scanner" where
  "unmount s = s\<lparr> mounted := False \<rparr>"

datatype event =
  StartScanning | StopScanning | ManualEntry | CameraError
  | Tick nat bool | ImageLoaded "string option" | BackClick | Unmount

fun step :: "event \<Rightarrow> scanner \<Rightarrow> scanner" where
  "step StartScanning s = startScanning s"
| "step StopScanning s = stopScanning s"
| "step ManualEntry s = handleManualEntry s"
| "step CameraError s = onUserMediaError s"
| "step (Tick i shot) s = intervalTick i shot s"
| "step (ImageLoaded code) s = imgOnload code s"
| "step BackClick s = backClick s"
| "step Unmount s = unmount s"

text \<open>A run applies the events from left to right.\<close>

definition run :: "event list \<Rightarrow> scanner \<Rightarrow> scanner" where
  "run es s = foldl (\<lambda>s e. step e s) s es"

section \<open>Properties of the search filter\<close>

lemma includes_iff_sublist: "includes_str t q \<longleftrightarrow> sublist q t"
  by (induction t) (auto simp: sublist_Cons_right)

lemma toLowerCase_append: "toLowerCase (a @ b) = toLowerCase a @ toLowerCase b"
  by (simp add: toLowerCase_def)

lemma toLowerCase_split:
  "toLowerCase t = a @ b \<Longrightarrow> \<exists>x y. t = x @ y \<and> toLowerCase x = a \<and> toLowerCase y = b"
  unfolding toLowerCase_def by (metis append_eq_map_conv)

lemma includes_lower_iff_ci_substring:
  "includes_str (toLowerCase t) (toLowerCase q) \<longleftrightarrow> ci_substring q t"
proof
  assume "includes_str (toLowerCase t) (toLowerCase q)"
  then obtain ps ss where "toLowerCase t = ps @ toLowerCase q @ ss"
    by (auto simp: includes_iff_sublist sublist_def)
  then obtain pre rest where t: "t = pre @ rest" and "toLowerCase rest = toLowerCase q @ ss"
    using toLowerCase_split by blast
  then obtain mid suf where "rest = mid @ suf" and "toLowerCase mid = toLowerCase q"
    using toLowerCase_split by blast
  with t show "ci_substring q t"
    unfolding ci_substring_def by blast
next
  assume "ci_substring q t"
  then obtain pre mid suf where "t = pre @ mid @ suf" and "toLowerCase mid = toLowerCase q"
    unfolding ci_substring_def by blast
  then have "toLowerCase t = toLowerCase pre @ toLowerCase q @ toLowerCase suf"
    by (simp add: toLowerCase_append)
  then show "includes_str (toLowerCase t) (toLowerCase q)"
    by (auto simp: includes_iff_sublist sublist_def)
qed

lemma matchesQuery_iff_spec: "matchesQuery q s \<longleftrightarrow> spec_matches q s"
  by (simp add: matchesQuery_def spec_matches_def includes_lower_iff_ci_substring)

lemma includes_empty: "includes_str t []"
  by (induction t) auto

subsection \<open>The lowering of letters against the alphabet\<close>

lemma letter_pairs_codes:
  "zip upperLetters lowerLetters = map (\<lambda>n. (char_of n, char_of (n + 32))) [65..<91]"
  by code_simp

lemma letter_pair_set:
  "set (zip upperLetters lowerLetters)
     = (\<lambda>n. (char_of n, char_of (n + 32))) ` {65..<91::nat}"
  by (simp only: letter_pairs_codes set_map set_upt)

lemma toLowerChar_upper: "isUpper c \<Longrightarrow> toLowerChar c = char_of (of_char c + (32::nat))"
  by (simp add: isUpper_def toLowerChar_def Let_def)

lemma toLowerChar_fixed: "\<not> isUpper c \<Longrightarrow> toLowerChar c = c"
  by (auto simp: isUpper_def toLowerChar_def Let_def)

lemma toLowerChar_code: "isUpper c \<Longrightarrow> (of_char (toLowerChar c) :: nat) = of_char c + 32"
  by (simp add: toLowerChar_upper) (simp add: isUpper_def)

lemma letter_pair_iff:
  "(a, b) \<in> set (zip upperLetters lowerLetters) \<longleftrightarrow> isUpper a \<and> b = toLowerChar a"
proof
  assume "(a, b) \<in> set (zip upperLetters lowerLetters)"
  then obtain n :: nat
    where n: "65 \<le> n" "n < 91" and a: "a = char_of n" and b: "b = char_of (n + 32)"
    unfolding letter_pair_set by auto
  from n a have c: "(of_char a :: nat) = n"
    by simp
  with n have u: "isUpper a"
    by (simp add: isUpper_def)
  with b c show "isUpper a \<and> b = toLowerChar a"
    by (simp add: toLowerChar_upper)
next
  assume h: "isUpper a \<and> b = toLowerChar a"
  let ?n = "of_char a :: nat"
  from h have n: "?n \<in> {65..<91}"
    by (simp add: isUpper_def)
  from h have "b = char_of (?n + 32)"
    by (simp add: toLowerChar_upper)
  moreover have "a = char_of ?n"
    by simp
  ultimately have "(a, b) = (\<lambda>n. (char_of n, char_of (n + 32))) ?n"
    by simp
  with n show "(a, b) \<in> set (zip upperLetters lowerLetters)"
    unfolding letter_pair_set by (rule image_eqI [rotated])
qed

lemma toLowerChar_not_upper: "\<not> isUpper (toLowerChar c)"
proof (cases "isUpper c")
  case True
  then have "(of_char (toLowerChar c) :: nat) = of_char c + 32"
    by (rule toLowerChar_code)
  with True show ?thesis
    by (simp add: isUpper_def)
next
  case False
  then show ?thesis
    by (simp add: toLowerChar_fixed)
qed

lemma toLowerChar_inj_upper:
  assumes "isUpper a" and "isUpper b" and "toLowerChar a = toLowerChar b"
  shows "a = b"
proof -
  have "(of_char a :: nat) + 32 = of_char (toLowerChar a)"
    using assms(1) by (simp only: toLowerChar_code)
  also have "\<dots> = of_char (toLowerChar b)"
    by (simp only: assms(3))
  also have "\<dots> = of_char b + 32"
    using assms(2) by (simp only: toLowerChar_code)
  finally have "(of_char a :: nat) = of_char b"
    by (simp only: add_right_cancel)
  then show ?thesis
    by (simp only: of_char_eq_iff)
qed

text \<open>
  The lowering identifies two characters exactly when the alphabet says that they are the
  same letter.
\<close>

lemma toLowerChar_eq_iff: "toLowerChar a = toLowerChar b \<longleftrightarrow> sameLetter a b"
proof
  assume e: "toLowerChar a = toLowerChar b"
  show "sameLetter a b"
  proof (cases "isUpper a")
    case ua: True
    show ?thesis
    proof (cases "isUpper b")
      case True
      with ua e have "a = b"
        by (simp add: toLowerChar_inj_upper)
      then show ?thesis
        by (simp add: sameLetter_def)
    next
      case False
      with e have "b = toLowerChar a"
        by (simp add: toLowerChar_fixed)
      with ua show ?thesis
        by (simp add: sameLetter_def letter_pair_iff)
    qed
  next
    case na: False
    show ?thesis
    proof (cases "isUpper b")
      case True
      with na e have "a = toLowerChar b"
        by (simp add: toLowerChar_fixed)
      with True show ?thesis
        by (simp add: sameLetter_def letter_pair_iff)
    next
      case False
      with na e have "a = b"
        by (simp add: toLowerChar_fixed)
      then show ?thesis
        by (simp add: sameLetter_def)
    qed
  qed
next
  assume "sameLetter a b"
  then consider "a = b" | "isUpper a \<and> b = toLowerChar a" | "isUpper b \<and> a = toLowerChar b"
    unfolding sameLetter_def letter_pair_iff by blast
  then show "toLowerChar a = toLowerChar b"
  proof cases
    case 1
    then show ?thesis
      by simp
  next
    case 2
    then show ?thesis
      by (simp add: toLowerChar_fixed toLowerChar_not_upper)
  next
    case 3
    then show ?thesis
      by (simp add: toLowerChar_fixed toLowerChar_not_upper)
  qed
qed

lemma toLowerCase_eq_iff: "toLowerCase u = toLowerCase v \<longleftrightarrow> ci_equal u v"
proof (induction u arbitrary: v)
  case Nil
  then show ?case
    by (simp add: toLowerCase_def ci_equal_def)
next
  case (Cons x xs)
  then show ?case
    by (cases v) (simp_all add: toLowerCase_def ci_equal_def toLowerChar_eq_iff)
qed



text \<open>Queries that differ in case only select the same stations.\<close>

lemma filter_ignores_case:
  "ci_equal q q' \<Longrightarrow> filteredStations S q = filteredStations S q'"
proof -
  assume "ci_equal q q'"
  then have "toLowerCase q = toLowerCase q'"
    by (simp add: toLowerCase_eq_iff)
  then have "matchesQuery q = matchesQuery q'"
    by (simp add: matchesQuery_def fun_eq_iff)
  then show ?thesis
    by (simp add: filteredStations_def)
qed

lemma filter_DOWNTOWN:
  "filteredStations mockStations ''DOWNTOWN'' = [downtown]
   \<and> filteredStations mockStations ''downtown'' = [downtown]"
  by code_simp


section \<open>Properties of the rendering helpers\<close>

lemma selectStation_known:
  "find (\<lambda>s. id_st s = stationId) stations = Some s \<Longrightarrow>
     selectStation stations onStationSelect stationId st = (None, onStationSelect s st)"
  by (simp add: selectStation_def)

lemma selectStation_beach:
  "selectStation mockStations showDetail ''3'' initialController
     = (None, \<lparr> applicationView = Detail, selectedStationId = Some ''3'' \<rparr>)"
  by code_simp

text \<open>
  The source does not guard the constructor: with a library that throws for the token,
  nothing of the view is left after the mount, the warning included.
\<close>

lemma firstView_map_throws:
  "mapThrows (accessToken env) \<Longrightarrow>
     firstView mapThrows stations isCharging env = Inl MapConstructorError"
  by (simp add: firstView_def mountView_def)

lemma popup_mkMarker: "map (popup \<circ> mkMarker) xs = xs"
  by (induction xs) (simp_all add: mkMarker_def)

lemma show_nat_decimal: "read_nat (show_nat n) = n"
proof (induction n rule: show_nat.induct)
  case (1 n)
  show ?case
  proof (cases "n < 10")
    case True
    then show ?thesis
      by (subst show_nat.simps) (simp add: read_nat_def)
  next
    case False
    with 1 have ih: "read_nat (show_nat (n div 10)) = n div 10"
      by simp
    have m: "n mod 10 < 10"
      by simp
    from False have "show_nat n = show_nat (n div 10) @ [char_of (48 + n mod 10)]"
      by (subst show_nat.simps) simp
    then have "read_nat (show_nat n) = 10 * read_nat (show_nat (n div 10)) + n mod 10"
      using m by (simp add: read_nat_def)
    with ih show ?thesis
      by simp
  qed
qed

section \<open>Claims about the search filter\<close>



text \<open>
  C2 as stated fails for whitespace: the query is not trimmed, and a query of two blanks
  matches no station of the test registry (no name or address has two blanks in a row), so
  the list is not returned unchanged.
\<close>

theorem C2_whitespace_counterexample:
  "filteredStations mockStations ''  '' \<noteq> mockStations"
  by code_simp

text \<open>
  C2, amended. Filtering with the empty query returns the input list unchanged, in the same
  order. Any other query, one of whitespace included, is matched as it is: the input is
  returned unchanged exactly when every station's name or address contains the query.
\<close>

theorem C2_empty_identity:
  "filteredStations S [] = S
   \<and> (filteredStations S q = S \<longleftrightarrow> (\<forall>s \<in> set S. spec_matches q s))"
proof -
  have "matchesQuery [] s" for s
    by (simp add: matchesQuery_def toLowerCase_def includes_empty)
  then have a: "filteredStations S [] = S"
    by (simp add: filteredStations_def)
  have b: "filteredStations S q = S \<longleftrightarrow> (\<forall>s \<in> set S. spec_matches q s)"
    by (simp add: filteredStations_def filter_id_conv matchesQuery_iff_spec)
  from a b show ?thesis by blast
qed

text \<open>
  C2 amended, at the test registry and a query of one blank: every station of the registry
  has a blank in its name, and the whole registry comes back.
\<close>

theorem C2_empty_identity_witness:
  "spec_matches '' '' downtown
   \<and> spec_matches '' '' airport
   \<and> spec_matches '' '' beach
   \<and> filteredStations mockStations '' '' = mockStations
   \<and> filteredStations mockStations [] = mockStations"
proof -
  have "\<forall>s \<in> set mockStations. matchesQuery '' '' s"
    by code_simp
  then have h: "\<forall>s \<in> set mockStations. spec_matches '' '' s"
    by (simp add: matchesQuery_iff_spec)
  with C2_empty_identity [of mockStations "'' ''"] show ?thesis
    by (simp add: mockStations_def)
qed

section \<open>Claims about the scanner\<close>

text \<open>
  C3. The claim: whenever the scanning state is left, by a successful scan, by an explicit
  stop or by navigating away (a camera error included), the poll loop is cancelled and no
  scan result is delivered afterwards. The code, run on concrete event sequences from the
  initial state:
  \<^item> after "Start Scanning" and a camera error, \<open>isScanning\<close> is false and the interval
    timer 1 is still registered, while the sibling path "Stop Scanning" leaves no timer;
  \<^item> after "Start Scanning" and an unmount, timer 1 is still registered;
  \<^item> after a camera error and a second "Start Scanning", the orphaned timer 1 polls again,
    its image delivers \<open>X\<close> to \<open>onScan\<close>, and timer 1 outlives that successful scan, which
    clears timer 2 only;
  \<^item> an image requested by a poll before "Stop Scanning" and loaded after it delivers
    \<open>X\<close> to \<open>onScan\<close>.
\<close>

theorem C3_scan_loop_not_cancelled:
  "timers (run [StartScanning, CameraError] initialScanner) = [1]
   \<and> isScanning (run [StartScanning, CameraError] initialScanner) = False
   \<and> timers (run [StartScanning, StopScanning] initialScanner) = []
   \<and> timers (run [StartScanning, Unmount] initialScanner) = [1]
   \<and> onScanCalls (run [StartScanning, CameraError, StartScanning, Tick 1 True,
          ImageLoaded (Some ''X'')] initialScanner) = [''X'']
   \<and> timers (run [StartScanning, CameraError, StartScanning, Tick 1 True,
          ImageLoaded (Some ''X'')] initialScanner) = [1]
   \<and> onScanCalls (run [StartScanning, Tick 1 True, StopScanning,
          ImageLoaded (Some ''X'')] initialScanner) = [''X'']"
  by code_simp

text \<open>
  C10. In every state of the scanner, whether the scan loop runs or not, a click on "Enter
  Code Manually" passes the constant \<open>EV-STATION-001-PORT-A\<close> to \<open>onScan\<close>, once; the
  handler reads no input, and it leaves \<open>isScanning\<close>, the timers and \<open>intervalRef\<close> as
  they are.
\<close>

theorem C10_manual_entry_constant:
  "onScanCalls (step ManualEntry s) = onScanCalls s @ [''EV-STATION-001-PORT-A'']
   \<and> isScanning (step ManualEntry s) = isScanning s
   \<and> timers (step ManualEntry s) = timers s
   \<and> intervalRef (step ManualEntry s) = intervalRef s"
  by (simp add: handleManualEntry_def)

text \<open>C10 while the scan loop runs: the constant is delivered, and the loop goes on.\<close>

theorem C10_manual_entry_constant_witness:
  "onScanCalls (step ManualEntry (run [StartScanning] initialScanner))
     = [''EV-STATION-001-PORT-A'']
   \<and> isScanning (step ManualEntry (run [StartScanning] initialScanner)) = True
   \<and> timers (step ManualEntry (run [StartScanning] initialScanner)) = [1]"
proof -
  have "onScanCalls (run [StartScanning] initialScanner) = []"
    and "isScanning (run [StartScanning] initialScanner) = True"
    and "timers (run [StartScanning] initialScanner) = [1]"
    by (simp_all add: run_def initialScanner_def startScanning_def)
  with C10_manual_entry_constant [of "run [StartScanning] initialScanner"] show ?thesis
    by simp
qed

section \<open>Claims about selection\<close>

text \<open>
  C4 as stated fails: for the id \<open>99\<close>, which no station of the test registry has,
  \<open>selectStation\<close> reports no \<open>NotFound\<close> condition.
\<close>

theorem C4_not_found_counterexample:
  "fst (selectStation mockStations showDetail ''99'' initialController) \<noteq> Some NotFound"
  by code_simp

text \<open>
  C4, amended. For every station id not present in the registry, \<open>selectStation\<close> does not
  call the selection callback, so the state behind it (the active view, the selected
  station) is unchanged whatever the callback does; and it reports nothing: the unknown id
  is ignored silently.
\<close>

theorem C4_unknown_id_ignored:
  "stationId \<notin> id_st ` set stations \<Longrightarrow>
     selectStation stations onStationSelect stationId st = (None, st)"
proof -
  assume "stationId \<notin> id_st ` set stations"
  then have "find (\<lambda>s. id_st s = stationId) stations = None"
    by (auto simp: find_None_iff)
  then show ?thesis
    by (simp add: selectStation_def)
qed

text \<open>C4 amended, at the test registry, the id \<open>99\<close> and the initial controller.\<close>

theorem C4_unknown_id_ignored_witness:
  "''99'' \<notin> id_st ` set mockStations
   \<and> selectStation mockStations showDetail ''99'' initialController
       = (None, initialController)"
proof -
  have h: "''99'' \<notin> id_st ` set mockStations"
    by code_simp
  from C4_unknown_id_ignored [OF h, of showDetail initialController] h show ?thesis
    by simp
qed

section \<open>Claims about the rendered view and the markers\<close>

text \<open>
  C5 as stated fails. With "Beach Resort" selected, a scan result accepted in the
  scanning view sets the flag, and the flag is all the discovery view is given: its
  banner does not name "Beach Resort".
\<close>

theorem C5_banner_counterexample:
  "selectedStationId scanningBeach = Some (id_st beach)
   \<and> chargingActive (scanResult ''X'' scanningBeach)
   \<and> map_option fst
        (banner (render mockStations (chargingActive (scanResult ''X'' scanningBeach))
           (Some ''test-token'') (mount mockStations)))
       \<noteq> Some (''Currently charging at '' @ name beach)"
  by code_simp

text \<open>
  C5, amended. When a scan result is accepted in the scanning view (any non-empty code),
  the charging-session flag is set active, the session refers to the station selected at
  that moment, and the view is the discovery view again. The discovery view is given the
  flag only: with the flag set its banner shows the fixed texts "Currently charging at
  Downtown Plaza" and "45 min remaining, 78% charged" (with a bullet for the comma), for
  every station list, every selection and every state of the view; with the flag not set
  it shows no banner.
\<close>

theorem C5_banner_fixed:
  assumes "applicationView a = Scanning" and "code \<noteq> []"
  shows "chargingActive (scanResult code a)
   \<and> sessionStationId (scanResult code a) = selectedStationId a
   \<and> applicationView (scanResult code a) = Discovery
   \<and> banner (render stations (chargingActive (scanResult code a)) env m)
       = Some (''Currently charging at Downtown Plaza'',
               ''45 min remaining ''
                 @ [char_of (0xE2::nat), char_of (0x80::nat), char_of (0xA2::nat)]
                 @ '' 78% charged'')
   \<and> banner (render stations False env m) = None"
  using assms by (simp add: scanResult_def render_def chargingBanner_def)

text \<open>
  C5 amended, with "Beach Resort" selected in the scanning view and the code \<open>X\<close>.
\<close>

theorem C5_banner_fixed_witness:
  "applicationView scanningBeach = Scanning
   \<and> ''X'' \<noteq> []
   \<and> chargingActive (scanResult ''X'' scanningBeach)
   \<and> sessionStationId (scanResult ''X'' scanningBeach) = Some ''3''
   \<and> applicationView (scanResult ''X'' scanningBeach) = Discovery
   \<and> map_option fst
        (banner (render mockStations (chargingActive (scanResult ''X'' scanningBeach))
           (Some ''test-token'') (mount mockStations)))
       = Some ''Currently charging at Downtown Plaza''"
proof -
  have v: "applicationView scanningBeach = Scanning"
    by (simp add: scanningBeach_def)
  have c: "''X'' \<noteq> []"
    by simp
  have i: "selectedStationId scanningBeach = Some ''3''"
    by (simp add: scanningBeach_def)
  note k = C5_banner_fixed [OF v c, of mockStations "Some ''test-token''" "mount mockStations"]
  from k have k1: "chargingActive (scanResult ''X'' scanningBeach)"
    by (rule conjunct1)
  from k i have k2: "sessionStationId (scanResult ''X'' scanningBeach) = Some ''3''"
    by (simp only:)
  from k have k3: "applicationView (scanResult ''X'' scanningBeach) = Discovery"
    by blast
  from k have "banner (render mockStations (chargingActive (scanResult ''X'' scanningBeach))
        (Some ''test-token'') (mount mockStations))
      = Some (''Currently charging at Downtown Plaza'',
              ''45 min remaining ''
                @ [char_of (0xE2::nat), char_of (0x80::nat), char_of (0xA2::nat)]
                @ '' 78% charged'')"
    by blast
  then have k4: "map_option fst
        (banner (render mockStations (chargingActive (scanResult ''X'' scanningBeach))
           (Some ''test-token'') (mount mockStations)))
      = Some ''Currently charging at Downtown Plaza''"
    by (simp only: option.map fst_conv)
  from v c k1 k2 k3 k4 show ?thesis
    by blast
qed

text \<open>
  C6 as stated fails: a marker for a station with the unrecognized status \<open>unknown\<close> gets
  the colour \<open>#EF4444\<close>, the very colour of an offline station's marker (red), not a gray.
\<close>

theorem C6_marker_counterexample:
  "color (mkMarker (beach\<lparr> status := ''unknown'' \<rparr>)) = ''#EF4444''
   \<and> color (mkMarker beach) = ''#EF4444''
   \<and> status beach = ''offline''"
  by code_simp

text \<open>
  C6, amended. The marker colour is a function of the status alone: \<open>available\<close> gives
  \<open>#10B981\<close> (green), \<open>busy\<close> gives \<open>#F59E0B\<close> (orange), and every other value, \<open>offline\<close>
  and the unrecognized ones alike, gives \<open>#EF4444\<close> (red). The gray default belongs to the
  status badge of the list: \<open>getStatusColor\<close> gives green, orange and red classes for the
  three statuses and \<open>text-gray-500\<close> for every other value.
\<close>

theorem C6_status_colours:
  "color (mkMarker s) = markerColor (status s)
   \<and> markerColor ''available'' = ''#10B981''
   \<and> markerColor ''busy'' = ''#F59E0B''
   \<and> markerColor ''offline'' = ''#EF4444''
   \<and> (st \<notin> {''available'', ''busy''} \<longrightarrow> markerColor st = ''#EF4444'')
   \<and> getStatusColor ''available'' = ''text-green-600''
   \<and> getStatusColor ''busy'' = ''text-orange-500''
   \<and> getStatusColor ''offline'' = ''text-red-500''
   \<and> (st \<notin> {''available'', ''busy'', ''offline''} \<longrightarrow> getStatusColor st = ''text-gray-500'')"
  by (simp add: mkMarker_def markerColor_def getStatusColor_def)

text \<open>C6 amended, at the status \<open>unknown\<close>.\<close>

theorem C6_status_colours_witness:
  "''unknown'' \<notin> {''available'', ''busy''}
   \<and> ''unknown'' \<notin> {''available'', ''busy'', ''offline''}
   \<and> markerColor ''unknown'' = ''#EF4444''
   \<and> getStatusColor ''unknown'' = ''text-gray-500''"
  using C6_status_colours [of downtown "''unknown''"] by simp

text \<open>
  C7 as stated fails: after the search text \<open>Downtown\<close> is typed into a view mounted with
  the test registry, the markers are those of all three stations, while the list shows
  "Downtown Plaza" only.
\<close>

theorem C7_markers_counterexample:
  "map popup (markersRef (setSearchQuery ''Downtown'' (mount mockStations))) = mockStations
   \<and> filteredStations mockStations
        (searchQuery (setSearchQuery ''Downtown'' (mount mockStations))) = [downtown]
   \<and> mockStations \<noteq> [downtown]"
  by code_simp

text \<open>
  C7, amended. A change of the search text leaves the markers as they are; the markers of
  a mounted view are those of the full station list it was given, one per station and in
  its order, for every search query; the filtered list is what the discovery list shows.
\<close>

theorem C7_markers_unfiltered:
  "markersRef (setSearchQuery q m) = markersRef m
   \<and> map popup (markersRef (setSearchQuery q (mount stations))) = stations
   \<and> stationCards (render stations c env (setSearchQuery q m))
       = map stationCard (filteredStations stations q)"
  by (auto simp: setSearchQuery_def mount_def stationMarkersEffect_def render_def
      popup_mkMarker)

text \<open>C7 amended, at the test registry and the search text \<open>Downtown\<close>.\<close>

theorem C7_markers_unfiltered_witness:
  "map popup (markersRef (setSearchQuery ''Downtown'' (mount mockStations))) = mockStations
   \<and> stationCards (render mockStations False None (setSearchQuery ''Downtown'' (mount mockStations)))
       = [stationCard downtown]"
proof -
  have "filteredStations mockStations ''Downtown'' = [downtown]"
    by code_simp
  with C7_markers_unfiltered
    [of "''Downtown''" "mount mockStations" mockStations False None, THEN conjunct2]
  show ?thesis
    by simp
qed



text \<open>
  C9. The card of a station shows its first three amenities in their order; with three
  amenities or fewer it shows nothing else, and with more than three it shows one more
  tag, "+N more", where N is the number of amenities minus 3 written in decimal
  (\<open>show_nat_decimal\<close>: the numeral written reads back as the number).
\<close>

theorem C9_amenity_tags:
  "(length (amenities s) \<le> 3 \<longrightarrow> tags (stationCard s) = amenities s)
   \<and> (length (amenities s) > 3 \<longrightarrow>
        tags (stationCard s)
          = take 3 (amenities s)
            @ [''+'' @ show_nat (length (amenities s) - 3) @ '' more''])"
  by (simp add: stationCard_def amenityTags_def)

text \<open>
  C9 at the station of the test "shows +more indicator when station has more than 3
  amenities" (five amenities, "+2 more") and at "Downtown Plaza" (three amenities).
\<close>

theorem C9_amenity_tags_witness:
  "length (amenities (downtown\<lparr> amenities :=
       [''Restaurant'', ''WiFi'', ''Restroom'', ''Parking'', ''Shopping''] \<rparr>)) > 3
   \<and> tags (stationCard (downtown\<lparr> amenities :=
       [''Restaurant'', ''WiFi'', ''Restroom'', ''Parking'', ''Shopping''] \<rparr>))
       = [''Restaurant'', ''WiFi'', ''Restroom'', ''+2 more'']
   \<and> length (amenities downtown) \<le> 3
   \<and> tags (stationCard downtown) = [''Restaurant'', ''WiFi'', ''Restroom'']"
proof -
  let ?s = "downtown\<lparr> amenities :=
    [''Restaurant'', ''WiFi'', ''Restroom'', ''Parking'', ''Shopping''] \<rparr>"
  have a: "length (amenities ?s) > 3"
    by (simp add: downtown_def)
  have b: "length (amenities downtown) \<le> 3"
    by (simp add: downtown_def)
  have n: "show_nat (Suc (Suc 0)) = ''2''"
    by code_simp
  from C9_amenity_tags [of ?s] a
  have "tags (stationCard ?s) = [''Restaurant'', ''WiFi'', ''Restroom'', ''+2 more'']"
    by (simp add: downtown_def n)
  moreover from C9_amenity_tags [of downtown] b
  have "tags (stationCard downtown) = [''Restaurant'', ''WiFi'', ''Restroom'']"
    by (simp add: downtown_def)
  ultimately show ?thesis
    using a b by blast
qed

end
